theory Spec2Isabelle
  imports Main "HOL-Library.AList"
begin

section \<open>slog-sentry: a slog handler that reports records to Sentry\<close>

text \<open>
  A shallow embedding of \<^verbatim>\<open>handler.go\<close> (package \<^verbatim>\<open>slogsentry\<close>). The handler wraps
  an inner \<^verbatim>\<open>slog.Handler\<close>; for records at one of the configured levels it sorts the
  attributes into a context map, a tag map and one carried error, reports to Sentry inside
  a scope, and then hands the record to the inner handler.

  The calls made to the collaborators (the Sentry scope, the package-level capture
  functions, the inner handler) are made explicit: \<open>Handle\<close> returns the list of these
  calls, in the order the code makes them, together with the error it returns.

  The repository holds a second revision of the file (\<^verbatim>\<open>src/unnamed/part_000\<close>), without
  tags. Its constructor with stored attributes and its closure \<^verbatim>\<open>handleAttr\<close> are
  modelled beside those of \<^verbatim>\<open>handler.go\<close>.
\<close>

subsection \<open>Go errors and \<^verbatim>\<open>SlogError\<close>\<close>

text \<open>
  The values of Go's \<^verbatim>\<open>error\<close> interface that the program meets: an error that is only
  a text (\<^verbatim>\<open>errors.New\<close>, \<^verbatim>\<open>fmt.Errorf\<close> without a wrapping verb), and the struct
  \<^verbatim>\<open>SlogError{msg, err}\<close>, whose field \<^verbatim>\<open>err\<close> is an error again or nil (\<open>None\<close>).
\<close>

datatype error =
    ErrorString string
  | SlogError (msg: string) (err: "error option")

text \<open>
  \<^verbatim>\<open>func (e SlogError) Error() string\<close>: the second and third equation. The first equation
  is the \<^verbatim>\<open>Error\<close> method of a plain error, which the third one calls as \<^verbatim>\<open>e.err.Error()\<close>.
\<close>

fun Error :: "error \<Rightarrow> string" where
  "Error (ErrorString s) = s"
| "Error (SlogError m None) = m"
| "Error (SlogError m (Some e)) = (if length m > 0 then m @ '': '' else m) @ Error e"

text \<open>\<^verbatim>\<open>func (e SlogError) Unwrap() error\<close> returns the field \<^verbatim>\<open>err\<close>.\<close>

definition Unwrap :: "error \<Rightarrow> error option" where
  "Unwrap e = err e"

subsection \<open>Records and attributes of \<^verbatim>\<open>log/slog\<close>\<close>

text \<open>
  A \<^verbatim>\<open>slog.Value\<close>, as far as the handler looks at it. The handler calls two methods
  only: \<^verbatim>\<open>String()\<close> and \<^verbatim>\<open>Any()\<close> followed by the type assertion \<^verbatim>\<open>.(error)\<close>. A value
  holds an error, or nil (\<^verbatim>\<open>slog.Any(k, nil)\<close>), or a string, or something of another
  kind, which is given by the text \<^verbatim>\<open>String()\<close> renders it to.
\<close>

datatype Value =
    ErrorValue error
  | NilValue
  | StringValue string
  | OtherValue string

text \<open>
  \<^verbatim>\<open>Value.String()\<close>: a string is returned as it is; the other kinds are formatted as
  \<^verbatim>\<open>fmt\<close> does, which calls \<^verbatim>\<open>Error()\<close> on an error and prints nil as \<^verbatim>\<open><nil>\<close>.
\<close>

fun String :: "Value \<Rightarrow> string" where
  "String (ErrorValue e) = Error e"
| "String NilValue = ''<nil>''"
| "String (StringValue s) = s"
| "String (OtherValue s) = s"

text \<open>
  \<^verbatim>\<open>v.Any().(error)\<close> in its two-result form: \<open>Some e\<close> when the assertion holds (\<^verbatim>\<open>ok\<close>
  is true), \<open>None\<close> when it does not; Go then assigns the zero value nil to the first
  result.
\<close>

fun AnyError :: "Value \<Rightarrow> error option" where
  "AnyError (ErrorValue e) = Some e"
| "AnyError NilValue = None"
| "AnyError (StringValue s) = None"
| "AnyError (OtherValue s) = None"

record Attr =
  Key :: string
  Value :: Value

text \<open>\<^verbatim>\<open>slog.Level\<close> is an integer type; the named levels are four apart.\<close>

type_synonym Level = int

definition LevelDebug :: Level where "LevelDebug = - 4"
definition LevelInfo :: Level where "LevelInfo = 0"
definition LevelWarn :: Level where "LevelWarn = 4"
definition LevelError :: Level where "LevelError = 8"

text \<open>
  A \<^verbatim>\<open>slog.Record\<close>: the fields the handler reads. \<open>Attrs\<close> is the sequence that
  \<^verbatim>\<open>record.Attrs(f)\<close> passes to \<^verbatim>\<open>f\<close>, in the order the attributes were added.
\<close>

record Record =
  Level :: Level
  Message :: string
  Attrs :: "Attr list"

subsection \<open>The collaborators: Sentry hubs and the inner handler\<close>

text \<open>
  A hub is known by its identity. A context carries a hub or none
  (\<^verbatim>\<open>sentry.GetHubFromContext\<close> returns nil for a context without one). The process-wide
  hub is an argument of \<open>Handle\<close>: \<^verbatim>\<open>sentry.CurrentHub()\<close> returns the hub that the
  package \<^verbatim>\<open>sentry\<close> creates when it is loaded, so it returns a hub in every state of the
  program, never nil.
\<close>

type_synonym Hub = nat

datatype Context = Context (GetHubFromContext: "Hub option")

text \<open>
  The interface \<^verbatim>\<open>slog.Handler\<close>: four methods, two of which return a handler again. The
  result of the inner \<^verbatim>\<open>Handle\<close> is nil (\<open>None\<close>) or an error.
\<close>

codatatype Handler = MkHandler
  (hEnabled: "Context \<Rightarrow> Level \<Rightarrow> bool")
  (hHandle: "Context \<Rightarrow> Record \<Rightarrow> error option")
  (hWithAttrs: "Attr list \<Rightarrow> Handler")
  (hWithGroup: "string \<Rightarrow> Handler")

text \<open>The calls \<open>Handle\<close> makes to its collaborators.\<close>

datatype Call =
    SetContext Hub string "(string \<times> string) list"
  | SetTags Hub "(string \<times> string) list"
  | CaptureException error
  | CaptureMessage string
  | InnerHandle Context Record

subsection \<open>Constants\<close>

definition shortErrKey :: string where "shortErrKey = ''err''"
definition longErrKey :: string where "longErrKey = ''error''"
definition tagAttrPrefix :: string where "tagAttrPrefix = ''tag_''"

text \<open>The keys \<^verbatim>\<open>slog.TimeKey\<close>, \<^verbatim>\<open>slog.LevelKey\<close>, \<^verbatim>\<open>slog.SourceKey\<close>, \<^verbatim>\<open>slog.MessageKey\<close>.\<close>

definition TimeKey :: string where "TimeKey = ''time''"
definition LevelKey :: string where "LevelKey = ''level''"
definition SourceKey :: string where "SourceKey = ''source''"
definition MessageKey :: string where "MessageKey = ''msg''"

definition slogDefaultKeys :: "string list" where
  "slogDefaultKeys = [TimeKey, LevelKey, SourceKey, MessageKey, shortErrKey, longErrKey]"

text \<open>\<^verbatim>\<open>strings.HasPrefix(s, prefix)\<close> and \<^verbatim>\<open>slices.Contains(xs, x)\<close>.\<close>

definition HasPrefix :: "string \<Rightarrow> string \<Rightarrow> bool" where
  "HasPrefix s p = (length s \<ge> length p \<and> take (length p) s = p)"

definition Contains :: "'a list \<Rightarrow> 'a \<Rightarrow> bool" where
  "Contains xs x = (x \<in> set xs)"

subsection \<open>The handler\<close>

record SentryHandler =
  Handler :: Handler
  levels :: "Level list"
  storedAttrs :: "Attr list"

definition NewSentryHandler :: "Handler \<Rightarrow> Level list \<Rightarrow> SentryHandler" where
  "NewSentryHandler handler lvls = \<lparr>Handler = handler, levels = lvls, storedAttrs = []\<rparr>"

text \<open>The constructor of the file's other revision, which its \<^verbatim>\<open>WithAttrs\<close> calls.\<close>

definition NewSentryHandlerWithStoredAttrs ::
  "Handler \<Rightarrow> Level list \<Rightarrow> Attr list \<Rightarrow> SentryHandler" where
  "NewSentryHandlerWithStoredAttrs handler lvls stored =
     (NewSentryHandler handler lvls)\<lparr>storedAttrs := stored\<rparr>"

definition Enabled :: "SentryHandler \<Rightarrow> Context \<Rightarrow> Level \<Rightarrow> bool" where
  "Enabled s ctx level = hEnabled (Handler s) ctx level"

text \<open>
  The variables of \<open>Handle\<close> that the closure \<^verbatim>\<open>handleAttr\<close> writes: \<^verbatim>\<open>err\<close> (here
  \<open>errVar\<close>), \<^verbatim>\<open>slogContext\<close> and \<^verbatim>\<open>tags\<close>. A Go map is an association list with one
  entry per key; \<^verbatim>\<open>m[k] = v\<close> is \<open>AList.update k v m\<close>, \<^verbatim>\<open>len(m)\<close> is its length and
  \<open>map_of m\<close> looks a key up.
\<close>

record Locals =
  errVar :: "error option"
  slogContext :: "(string \<times> string) list"
  tags :: "(string \<times> string) list"

definition initLocals :: Locals where
  "initLocals = \<lparr>errVar = None, slogContext = [], tags = []\<rparr>"

definition handleAttr :: "Attr \<Rightarrow> Locals \<Rightarrow> Locals" where
  "handleAttr attr l =
     (if HasPrefix (Key attr) tagAttrPrefix then
        l\<lparr>tags := AList.update (Key attr) (String (Value attr)) (tags l)\<rparr>
      else if \<not> Contains slogDefaultKeys (Key attr) then
        l\<lparr>slogContext := AList.update (Key attr) (String (Value attr)) (slogContext l)\<rparr>
      else if Key attr = shortErrKey \<or> Key attr = longErrKey then
        (case AnyError (Value attr) of
           Some e \<Rightarrow> l\<lparr>errVar := Some e\<rparr>
         | None \<Rightarrow>
             l\<lparr>errVar := None,
               slogContext := AList.update (Key attr) (String (Value attr)) (slogContext l)\<rparr>)
      else l)"

text \<open>
  The two loops of \<open>Handle\<close>: over \<^verbatim>\<open>s.storedAttrs\<close>, then over the attributes of the
  record.
\<close>

definition classify :: "Attr list \<Rightarrow> Attr list \<Rightarrow> Locals" where
  "classify stored attrs = fold handleAttr attrs (fold handleAttr stored initLocals)"

text \<open>
  The closure \<^verbatim>\<open>handleAttr\<close> of the file's other revision (\<^verbatim>\<open>src/unnamed/part_000\<close>), and
  its two loops. That revision has no constant \<^verbatim>\<open>tagAttrPrefix\<close> and no map \<^verbatim>\<open>tags\<close>: the
  closure starts with the test against \<^verbatim>\<open>slogDefaultKeys\<close> and writes \<^verbatim>\<open>err\<close> and
  \<^verbatim>\<open>slogContext\<close> only, so the field \<open>tags\<close> stays as it is.
\<close>

definition handleAttr_part_000 :: "Attr \<Rightarrow> Locals \<Rightarrow> Locals" where
  "handleAttr_part_000 attr l =
     (if \<not> Contains slogDefaultKeys (Key attr) then
        l\<lparr>slogContext := AList.update (Key attr) (String (Value attr)) (slogContext l)\<rparr>
      else if Key attr = shortErrKey \<or> Key attr = longErrKey then
        (case AnyError (Value attr) of
           Some e \<Rightarrow> l\<lparr>errVar := Some e\<rparr>
         | None \<Rightarrow>
             l\<lparr>errVar := None,
               slogContext := AList.update (Key attr) (String (Value attr)) (slogContext l)\<rparr>)
      else l)"

definition classify_part_000 :: "Attr list \<Rightarrow> Attr list \<Rightarrow> Locals" where
  "classify_part_000 stored attrs =
     fold handleAttr_part_000 attrs (fold handleAttr_part_000 stored initLocals)"

text \<open>
  The body of \<^verbatim>\<open>hub.WithScope\<close>. The scope belongs to \<open>hub\<close>; the two capture functions
  are the package-level ones of \<^verbatim>\<open>sentry\<close>.
\<close>

definition withScope :: "Hub \<Rightarrow> Locals \<Rightarrow> Record \<Rightarrow> Call list" where
  "withScope hub l record =
     (if length (slogContext l) > 0 then [SetContext hub ''slog'' (slogContext l)] else [])
     @ (if length (tags l) > 0 then [SetTags hub (tags l)] else [])
     @ (if Level record = LevelError then
          [CaptureException (SlogError (Message record) (errVar l))]
        else if Level record = LevelDebug \<or> Level record = LevelInfo
                \<or> Level record = LevelWarn then
          [CaptureMessage (Message record)]
        else [])"

text \<open>
  The variable \<^verbatim>\<open>hub\<close> before the code tests it against nil: the hub of the context, or
  else \<open>cur\<close>, which is what \<^verbatim>\<open>sentry.CurrentHub()\<close> returns. The variable is a pointer,
  so the result is an option, and \<open>Handle\<close> keeps the branch for nil.
\<close>

definition resolveHub :: "Hub \<Rightarrow> Context \<Rightarrow> Hub option" where
  "resolveHub cur ctx =
     (case GetHubFromContext ctx of None \<Rightarrow> Some cur | Some h \<Rightarrow> Some h)"

text \<open>
  \<open>Handle s cur ctx record\<close>: the result is the list of calls made and the error returned
  (\<open>None\<close> is nil).
\<close>

definition Handle ::
  "SentryHandler \<Rightarrow> Hub \<Rightarrow> Context \<Rightarrow> Record \<Rightarrow> Call list \<times> error option" where
  "Handle s cur ctx record =
     (if Contains (levels s) (Level record) then
        (case resolveHub cur ctx of
           None \<Rightarrow> ([], Some (ErrorString ''sentry: hub is nil''))
         | Some hub \<Rightarrow>
             (withScope hub (classify (storedAttrs s) (Attrs record)) record
                @ [InnerHandle ctx record],
              hHandle (Handler s) ctx record))
      else ([InnerHandle ctx record], hHandle (Handler s) ctx record))"

definition WithAttrs :: "SentryHandler \<Rightarrow> Attr list \<Rightarrow> SentryHandler" where
  "WithAttrs s attrs =
     (NewSentryHandler (hWithAttrs (Handler s) attrs) (levels s))\<lparr>storedAttrs := attrs\<rparr>"

definition WithGroup :: "SentryHandler \<Rightarrow> string \<Rightarrow> SentryHandler" where
  "WithGroup s name = NewSentryHandler (hWithGroup (Handler s) name) (levels s)"

subsection \<open>Reading the calls\<close>

text \<open>The submissions to Sentry among the calls: the captured exceptions and messages.\<close>

fun isSubmission :: "Call \<Rightarrow> bool" where
  "isSubmission (CaptureException e) = True"
| "isSubmission (CaptureMessage m) = True"
| "isSubmission (SetContext h n m) = False"
| "isSubmission (SetTags h m) = False"
| "isSubmission (InnerHandle c r) = False"

definition submissions :: "Call list \<Rightarrow> Call list" where
  "submissions cs = filter isSubmission cs"

subsection \<open>Inputs for the examples\<close>

text \<open>An inner handler that is enabled at every level and whose \<open>Handle\<close> returns \<open>r\<close>.\<close>

primcorec constHandler :: "error option \<Rightarrow> Handler" where
  "hEnabled (constHandler r) = (\<lambda>_ _. True)"
| "hHandle (constHandler r) = (\<lambda>_ _. r)"
| "hWithAttrs (constHandler r) = (\<lambda>_. constHandler r)"
| "hWithGroup (constHandler r) = (\<lambda>_. constHandler r)"

definition mkAttr :: "string \<Rightarrow> Value \<Rightarrow> Attr" where
  "mkAttr k v = \<lparr>Key = k, Value = v\<rparr>"

definition mkRecord :: "Level \<Rightarrow> string \<Rightarrow> Attr list \<Rightarrow> Record" where
  "mkRecord lvl m as = \<lparr>Level = lvl, Message = m, Attrs = as\<rparr>"

section \<open>Properties\<close>

subsection \<open>Auxiliary facts about the scan of the attributes\<close>

lemma errKeys_not_tag [simp]:
  "\<not> HasPrefix shortErrKey tagAttrPrefix" "\<not> HasPrefix longErrKey tagAttrPrefix"
  by (simp_all add: HasPrefix_def shortErrKey_def longErrKey_def tagAttrPrefix_def)

lemma errKeys_default [simp]:
  "Contains slogDefaultKeys shortErrKey" "Contains slogDefaultKeys longErrKey"
  by (simp_all add: Contains_def slogDefaultKeys_def)

lemma handleAttr_tag:
  "HasPrefix (Key a) tagAttrPrefix \<Longrightarrow>
     handleAttr a l = l\<lparr>tags := AList.update (Key a) (String (Value a)) (tags l)\<rparr>"
  by (simp add: handleAttr_def)

lemma handleAttr_errKey_error:
  "Key a = shortErrKey \<or> Key a = longErrKey \<Longrightarrow> AnyError (Value a) = Some e \<Longrightarrow>
     handleAttr a l = l\<lparr>errVar := Some e\<rparr>"
  by (auto simp add: handleAttr_def)

lemma handleAttr_errKey_other:
  "Key a = shortErrKey \<or> Key a = longErrKey \<Longrightarrow> AnyError (Value a) = None \<Longrightarrow>
     handleAttr a l =
       l\<lparr>errVar := None,
         slogContext := AList.update (Key a) (String (Value a)) (slogContext l)\<rparr>"
  by (auto simp add: handleAttr_def)

lemma errVar_handleAttr_other:
  "Key b \<noteq> shortErrKey \<Longrightarrow> Key b \<noteq> longErrKey \<Longrightarrow> errVar (handleAttr b l) = errVar l"
  by (simp add: handleAttr_def)

lemma errVar_fold_other:
  "\<forall>b\<in>set bs. Key b \<noteq> shortErrKey \<and> Key b \<noteq> longErrKey \<Longrightarrow>
     errVar (fold handleAttr bs l) = errVar l"
  by (induction bs arbitrary: l) (simp_all add: errVar_handleAttr_other)

lemma classify_append: "classify stored attrs = fold handleAttr (stored @ attrs) initLocals"
  by (simp add: classify_def)

lemma slogContext_handleAttr_other:
  "Key b \<noteq> k \<Longrightarrow> map_of (slogContext (handleAttr b l)) k = map_of (slogContext l) k"
  by (auto simp add: handleAttr_def update_conv' split: option.splits)

lemma slogContext_fold_other:
  "\<forall>b\<in>set bs. Key b \<noteq> k \<Longrightarrow>
     map_of (slogContext (fold handleAttr bs l)) k = map_of (slogContext l) k"
  by (induction bs arbitrary: l) (simp_all add: slogContext_handleAttr_other)

lemma tags_handleAttr_other:
  "Key b \<noteq> k \<Longrightarrow> map_of (tags (handleAttr b l)) k = map_of (tags l) k"
  by (auto simp add: handleAttr_def update_conv' split: option.splits)

lemma tags_fold_other:
  "\<forall>b\<in>set bs. Key b \<noteq> k \<Longrightarrow>
     map_of (tags (fold handleAttr bs l)) k = map_of (tags l) k"
  by (induction bs arbitrary: l) (simp_all add: tags_handleAttr_other)

text \<open>
  Which keys the maps can hold: no key with the tag prefix enters the context map, only
  keys with the tag prefix enter the tag map, and the keys for time, level, source and
  message enter neither.
\<close>

lemma slogContext_handleAttr_tagkey:
  "HasPrefix k tagAttrPrefix \<Longrightarrow> map_of (slogContext l) k = None \<Longrightarrow>
     map_of (slogContext (handleAttr b l)) k = None"
  by (auto simp add: handleAttr_def update_conv' split: option.splits)

lemma slogContext_fold_tagkey:
  "HasPrefix k tagAttrPrefix \<Longrightarrow> map_of (slogContext l) k = None \<Longrightarrow>
     map_of (slogContext (fold handleAttr bs l)) k = None"
  by (induction bs arbitrary: l) (simp_all add: slogContext_handleAttr_tagkey)

lemma tags_handleAttr_plainkey:
  "\<not> HasPrefix k tagAttrPrefix \<Longrightarrow> map_of (tags l) k = None \<Longrightarrow>
     map_of (tags (handleAttr b l)) k = None"
  by (auto simp add: handleAttr_def update_conv' split: option.splits)

lemma tags_fold_plainkey:
  "\<not> HasPrefix k tagAttrPrefix \<Longrightarrow> map_of (tags l) k = None \<Longrightarrow>
     map_of (tags (fold handleAttr bs l)) k = None"
  by (induction bs arbitrary: l) (simp_all add: tags_handleAttr_plainkey)

lemma slogContext_handleAttr_ignored:
  "Contains slogDefaultKeys k \<Longrightarrow> k \<noteq> shortErrKey \<Longrightarrow> k \<noteq> longErrKey \<Longrightarrow>
   map_of (slogContext l) k = None \<Longrightarrow> map_of (slogContext (handleAttr b l)) k = None"
  by (auto simp add: handleAttr_def update_conv' split: option.splits)

lemma slogContext_fold_ignored:
  "Contains slogDefaultKeys k \<Longrightarrow> k \<noteq> shortErrKey \<Longrightarrow> k \<noteq> longErrKey \<Longrightarrow>
   map_of (slogContext l) k = None \<Longrightarrow> map_of (slogContext (fold handleAttr bs l)) k = None"
  by (induction bs arbitrary: l) (simp_all add: slogContext_handleAttr_ignored)

lemma defaultKeys_not_tag:
  "Contains slogDefaultKeys k \<Longrightarrow> \<not> HasPrefix k tagAttrPrefix"
  by (auto simp add: Contains_def slogDefaultKeys_def HasPrefix_def tagAttrPrefix_def
      TimeKey_def LevelKey_def SourceKey_def MessageKey_def shortErrKey_def longErrKey_def)

text \<open>
  The scan up to and after one attribute: the last attribute under an error key decides
  \<open>errVar\<close>, and the last attribute under a key decides the entry of that key.
\<close>

lemma submissions_withScope:
  "submissions (withScope hub l r @ [InnerHandle ctx r]) =
     (if Level r = LevelError then [CaptureException (SlogError (Message r) (errVar l))]
      else if Level r = LevelDebug \<or> Level r = LevelInfo \<or> Level r = LevelWarn
      then [CaptureMessage (Message r)] else [])"
  by (simp add: submissions_def withScope_def)

lemma Handle_forwarded:
  "Contains (levels s) (Level r) \<Longrightarrow> resolveHub cur ctx = Some hub \<Longrightarrow>
     Handle s cur ctx r =
       (withScope hub (classify (storedAttrs s) (Attrs r)) r @ [InnerHandle ctx r],
        hHandle (Handler s) ctx r)"
  by (simp add: Handle_def)

lemma errVar_scan_last_errKey:
  assumes "Key a = shortErrKey \<or> Key a = longErrKey"
    and "\<forall>b\<in>set post. Key b \<noteq> shortErrKey \<and> Key b \<noteq> longErrKey"
  shows "errVar (fold handleAttr (pre @ a # post) l) = AnyError (Value a)"
proof -
  have "errVar (fold handleAttr (pre @ a # post) l)
          = errVar (handleAttr a (fold handleAttr pre l))"
    using assms(2) by (simp add: errVar_fold_other)
  also have "\<dots> = AnyError (Value a)"
  proof (cases "AnyError (Value a)")
    case None
    then show ?thesis using assms(1) by (simp add: handleAttr_errKey_other)
  next
    case (Some e)
    then show ?thesis using assms(1) by (simp add: handleAttr_errKey_error)
  qed
  finally show ?thesis .
qed

lemma slogContext_scan_last_key:
  assumes "Key a = shortErrKey \<or> Key a = longErrKey"
    and "AnyError (Value a) = None"
    and "\<forall>b\<in>set post. Key b \<noteq> Key a"
  shows "map_of (slogContext (fold handleAttr (pre @ a # post) l)) (Key a)
           = Some (String (Value a))"
proof -
  have "map_of (slogContext (fold handleAttr (pre @ a # post) l)) (Key a)
          = map_of (slogContext (handleAttr a (fold handleAttr pre l))) (Key a)"
    using assms(3) by (simp add: slogContext_fold_other)
  also have "\<dots> = Some (String (Value a))"
    using assms(1,2) by (simp add: handleAttr_errKey_other update_conv')
  finally show ?thesis .
qed

lemma tags_scan_last_key:
  assumes "HasPrefix (Key a) tagAttrPrefix"
    and "\<forall>b\<in>set post. Key b \<noteq> Key a"
  shows "map_of (tags (fold handleAttr (pre @ a # post) l)) (Key a) = Some (String (Value a))"
proof -
  have "map_of (tags (fold handleAttr (pre @ a # post) l)) (Key a)
          = map_of (tags (handleAttr a (fold handleAttr pre l))) (Key a)"
    using assms(2) by (simp add: tags_fold_other)
  also have "\<dots> = Some (String (Value a))"
    using assms(1) by (simp add: handleAttr_tag update_conv')
  finally show ?thesis .
qed

text \<open>
  A hub is always found, so \<open>Handle\<close> always returns what the inner handler returns.
\<close>

lemma resolveHub_Some:
  "resolveHub cur ctx = Some (case GetHubFromContext ctx of None \<Rightarrow> cur | Some h \<Rightarrow> h)"
  by (simp add: resolveHub_def split: option.split)

lemma Handle_result: "snd (Handle s cur ctx r) = hHandle (Handler s) ctx r"
  by (simp add: Handle_def resolveHub_Some)

text \<open>
  Attributes that hold no error under an error key leave a carried error of nil as it is.
\<close>

lemma errVar_handleAttr_no_error:
  "Key c = shortErrKey \<or> Key c = longErrKey \<longrightarrow> AnyError (Value c) = None \<Longrightarrow>
     errVar l = None \<Longrightarrow> errVar (handleAttr c l) = None"
  by (auto simp add: handleAttr_def split: option.splits)

lemma errVar_fold_no_error:
  "\<forall>c\<in>set cs. Key c = shortErrKey \<or> Key c = longErrKey \<longrightarrow> AnyError (Value c) = None \<Longrightarrow>
     errVar l = None \<Longrightarrow> errVar (fold handleAttr cs l) = None"
  by (induction cs arbitrary: l) (simp_all add: errVar_handleAttr_no_error)

text \<open>
  The closure of the other revision: it does what \<open>handleAttr\<close> does for a key without
  the tag prefix, and stores an attribute with the tag prefix in the context map. So the
  two scans agree on the carried error and on the context entries of the keys without the
  prefix.
\<close>

lemma handleAttr_part_000_plainkey:
  "\<not> HasPrefix (Key a) tagAttrPrefix \<Longrightarrow> handleAttr_part_000 a l = handleAttr a l"
  by (simp add: handleAttr_part_000_def handleAttr_def)

lemma handleAttr_part_000_tag:
  "HasPrefix (Key a) tagAttrPrefix \<Longrightarrow>
     handleAttr_part_000 a l =
       l\<lparr>slogContext := AList.update (Key a) (String (Value a)) (slogContext l)\<rparr>"
  using defaultKeys_not_tag [of "Key a"] by (auto simp add: handleAttr_part_000_def)

lemma handleAttr_part_000_agrees:
  assumes "errVar l' = errVar l"
    and "\<forall>k. \<not> HasPrefix k tagAttrPrefix \<longrightarrow>
           map_of (slogContext l') k = map_of (slogContext l) k"
  shows "errVar (handleAttr_part_000 a l') = errVar (handleAttr a l)
    \<and> (\<forall>k. \<not> HasPrefix k tagAttrPrefix \<longrightarrow>
           map_of (slogContext (handleAttr_part_000 a l')) k
             = map_of (slogContext (handleAttr a l)) k)"
proof (cases "HasPrefix (Key a) tagAttrPrefix")
  case True
  then show ?thesis
    using assms by (auto simp add: handleAttr_part_000_tag handleAttr_tag update_conv')
next
  case False
  then show ?thesis
    using assms
    by (auto simp add: handleAttr_part_000_def handleAttr_def update_conv'
        split: option.splits)
qed

lemma fold_part_000_agrees:
  assumes "errVar l' = errVar l"
    and "\<forall>k. \<not> HasPrefix k tagAttrPrefix \<longrightarrow>
           map_of (slogContext l') k = map_of (slogContext l) k"
  shows "errVar (fold handleAttr_part_000 as l') = errVar (fold handleAttr as l)
    \<and> (\<forall>k. \<not> HasPrefix k tagAttrPrefix \<longrightarrow>
           map_of (slogContext (fold handleAttr_part_000 as l')) k
             = map_of (slogContext (fold handleAttr as l)) k)"
  using assms
proof (induction as arbitrary: l l')
  case Nil
  then show ?case by simp
next
  case (Cons a as)
  have "errVar (handleAttr_part_000 a l') = errVar (handleAttr a l)
    \<and> (\<forall>k. \<not> HasPrefix k tagAttrPrefix \<longrightarrow>
           map_of (slogContext (handleAttr_part_000 a l')) k
             = map_of (slogContext (handleAttr a l)) k)"
    using Cons.prems by (rule handleAttr_part_000_agrees)
  then show ?case using Cons.IH by simp
qed

lemma classify_part_000_agrees:
  "errVar (classify_part_000 stored attrs) = errVar (classify stored attrs)
   \<and> (\<forall>k. \<not> HasPrefix k tagAttrPrefix \<longrightarrow>
          map_of (slogContext (classify_part_000 stored attrs)) k
            = map_of (slogContext (classify stored attrs)) k)"
proof -
  have scan: "classify_part_000 stored attrs
                = fold handleAttr_part_000 (stored @ attrs) initLocals"
    by (simp add: classify_part_000_def)
  show ?thesis
    unfolding classify_append scan by (rule fold_part_000_agrees) simp_all
qed

text \<open>
  The definitions that the examples below unfold to compute.
\<close>

lemmas eval_defs =
  Handle_def Contains_def NewSentryHandler_def mkRecord_def mkAttr_def resolveHub_def
  classify_def handleAttr_def withScope_def submissions_def initLocals_def HasPrefix_def
  tagAttrPrefix_def slogDefaultKeys_def TimeKey_def LevelKey_def SourceKey_def
  MessageKey_def shortErrKey_def longErrKey_def LevelError_def LevelDebug_def
  LevelInfo_def LevelWarn_def WithAttrs_def NewSentryHandlerWithStoredAttrs_def
  handleAttr_part_000_def classify_part_000_def

subsection \<open>Delegation to the inner handler and the hub\<close>



text \<open>
  C7. For a record whose level is not one of the configured levels, the only call of
  \<open>Handle\<close> is the one to the inner handler, with the record as it came: nothing is
  submitted to Sentry and no attribute is classified; the result is the inner handler's.
  With no configured level this holds for every record.
\<close>

theorem Handle_level_not_forwarded:
  "(\<not> Contains (levels s) (Level r) \<longrightarrow>
      Handle s cur ctx r = ([InnerHandle ctx r], hHandle (Handler s) ctx r)
      \<and> submissions (fst (Handle s cur ctx r)) = [])
   \<and> (levels s = [] \<longrightarrow>
      Handle s cur ctx r = ([InnerHandle ctx r], hHandle (Handler s) ctx r))"
  by (simp add: Handle_def Contains_def submissions_def)

theorem Handle_level_not_forwarded_witness:
  "Contains (levels (NewSentryHandler (constHandler None) [LevelError]))
      (Level (mkRecord LevelInfo ''started'' [mkAttr ''err'' (ErrorValue (ErrorString ''e''))]))
     = False
   \<and> Handle (NewSentryHandler (constHandler None) [LevelError]) 0 (Context None)
        (mkRecord LevelInfo ''started'' [mkAttr ''err'' (ErrorValue (ErrorString ''e''))])
      = ([InnerHandle (Context None)
            (mkRecord LevelInfo ''started'' [mkAttr ''err'' (ErrorValue (ErrorString ''e''))])],
         None)
   \<and> Handle (NewSentryHandler (constHandler None) []) 0 (Context None)
        (mkRecord LevelError ''failed'' [])
      = ([InnerHandle (Context None) (mkRecord LevelError ''failed'' [])], None)"
  using Handle_level_not_forwarded [where
      s = "NewSentryHandler (constHandler None) [LevelError]"
      and r = "mkRecord LevelInfo ''started'' [mkAttr ''err'' (ErrorValue (ErrorString ''e''))]"
      and cur = 0 and ctx = "Context None"]
    Handle_level_not_forwarded [where
      s = "NewSentryHandler (constHandler None) []"
      and r = "mkRecord LevelError ''failed'' []"
      and cur = 0 and ctx = "Context None"]
  by (simp add: eval_defs)

subsection \<open>Classification of the attributes\<close>

text \<open>
  C2, as amended. In \<^verbatim>\<open>handler.go\<close>, an attribute whose key starts with \<^verbatim>\<open>tag_\<close> is
  handled by the first branch of \<^verbatim>\<open>handleAttr\<close>, whatever else holds of its key: the
  rendering of its value is stored in the tag map under the whole key, and the context
  map and the carried error stay as they were. Over a whole scan, such a key is never in
  the context map, and the tag map holds under it the rendering of the last attribute
  with that key. The closure of the other revision has no rule for tags: it stores the
  rendering of such an attribute in the context map under its key.
\<close>

theorem tag_prefix_rule:
  assumes "HasPrefix (Key a) tagAttrPrefix"
  shows "handleAttr a l = l\<lparr>tags := AList.update (Key a) (String (Value a)) (tags l)\<rparr>
    \<and> map_of (tags (handleAttr a l)) (Key a) = Some (String (Value a))
    \<and> slogContext (handleAttr a l) = slogContext l
    \<and> map_of (slogContext (classify stored attrs)) (Key a) = None
    \<and> (stored @ attrs = pre @ a # post \<and> (\<forall>b\<in>set post. Key b \<noteq> Key a) \<longrightarrow>
          map_of (tags (classify stored attrs)) (Key a) = Some (String (Value a)))
    \<and> handleAttr_part_000 a l =
          l\<lparr>slogContext := AList.update (Key a) (String (Value a)) (slogContext l)\<rparr>"
proof -
  have step: "handleAttr a l = l\<lparr>tags := AList.update (Key a) (String (Value a)) (tags l)\<rparr>"
    using assms by (rule handleAttr_tag)
  have other: "handleAttr_part_000 a l =
          l\<lparr>slogContext := AList.update (Key a) (String (Value a)) (slogContext l)\<rparr>"
    using assms by (rule handleAttr_part_000_tag)
  have ctx: "map_of (slogContext (classify stored attrs)) (Key a) = None"
    unfolding classify_append
    using assms by (rule slogContext_fold_tagkey) (simp add: initLocals_def)
  have tg: "map_of (tags (classify stored attrs)) (Key a) = Some (String (Value a))"
    if "stored @ attrs = pre @ a # post" "\<forall>b\<in>set post. Key b \<noteq> Key a"
    unfolding classify_append that(1) using assms that(2) by (rule tags_scan_last_key)
  show ?thesis using step ctx tg other by (simp add: update_conv')
qed

theorem tag_prefix_rule_witness:
  "HasPrefix (Key (mkAttr ''tag_env'' (StringValue ''prod''))) tagAttrPrefix
   \<and> handleAttr (mkAttr ''tag_env'' (StringValue ''prod'')) initLocals
       = \<lparr>errVar = None, slogContext = [], tags = [(''tag_env'', ''prod'')]\<rparr>
   \<and> classify [mkAttr ''tag_env'' (StringValue ''dev'')]
        [mkAttr ''tag_env'' (StringValue ''prod''), mkAttr ''user'' (StringValue ''bob'')]
       = \<lparr>errVar = None, slogContext = [(''user'', ''bob'')],
           tags = [(''tag_env'', ''prod'')]\<rparr>
   \<and> map_of (slogContext (classify [mkAttr ''tag_env'' (StringValue ''dev'')]
        [mkAttr ''tag_env'' (StringValue ''prod''), mkAttr ''user'' (StringValue ''bob'')]))
        ''tag_env'' = None
   \<and> map_of (tags (classify [mkAttr ''tag_env'' (StringValue ''dev'')]
        [mkAttr ''tag_env'' (StringValue ''prod''), mkAttr ''user'' (StringValue ''bob'')]))
        ''tag_env'' = Some ''prod''
   \<and> handleAttr_part_000 (mkAttr ''tag_env'' (StringValue ''prod'')) initLocals
       = \<lparr>errVar = None, slogContext = [(''tag_env'', ''prod'')], tags = []\<rparr>"
  using tag_prefix_rule [where a = "mkAttr ''tag_env'' (StringValue ''prod'')"
      and l = initLocals
      and stored = "[mkAttr ''tag_env'' (StringValue ''dev'')]"
      and attrs = "[mkAttr ''tag_env'' (StringValue ''prod''),
                    mkAttr ''user'' (StringValue ''bob'')]"
      and pre = "[mkAttr ''tag_env'' (StringValue ''dev'')]"
      and post = "[mkAttr ''user'' (StringValue ''bob'')]"]
  by (simp add: eval_defs)

text \<open>
  The claim as first stated fails on the closure of the other revision: an attribute with
  the key \<^verbatim>\<open>tag_env\<close> is in the context map after the scan, and in no tag map.
\<close>

theorem tag_prefix_rule_counterexample:
  "HasPrefix (Key (mkAttr ''tag_env'' (StringValue ''prod''))) tagAttrPrefix
   \<and> classify_part_000 [] [mkAttr ''tag_env'' (StringValue ''prod'')]
       = \<lparr>errVar = None, slogContext = [(''tag_env'', ''prod'')], tags = []\<rparr>
   \<and> map_of (slogContext (classify_part_000 [] [mkAttr ''tag_env'' (StringValue ''prod'')]))
        ''tag_env'' = Some ''prod''
   \<and> map_of (tags (classify_part_000 [] [mkAttr ''tag_env'' (StringValue ''prod'')]))
        ''tag_env'' = None"
  by (simp add: eval_defs)

text \<open>
  C9. An attribute whose key is one of the default keys other than \<^verbatim>\<open>err\<close> and
  \<^verbatim>\<open>error\<close> (so the key for the time, the level, the source or the message) does not
  start with the tag prefix and leaves the three variables as they were. Over a whole
  scan, neither map has an entry under such a key.
\<close>

theorem other_default_key_ignored:
  assumes "Contains slogDefaultKeys (Key a)"
    and "Key a \<noteq> shortErrKey" and "Key a \<noteq> longErrKey"
  shows "(Key a = TimeKey \<or> Key a = LevelKey \<or> Key a = SourceKey \<or> Key a = MessageKey)
    \<and> \<not> HasPrefix (Key a) tagAttrPrefix
    \<and> handleAttr a l = l
    \<and> map_of (slogContext (classify stored attrs)) (Key a) = None
    \<and> map_of (tags (classify stored attrs)) (Key a) = None"
proof -
  have keys: "Key a = TimeKey \<or> Key a = LevelKey \<or> Key a = SourceKey \<or> Key a = MessageKey"
    using assms by (auto simp add: Contains_def slogDefaultKeys_def)
  have notag: "\<not> HasPrefix (Key a) tagAttrPrefix"
    using assms(1) by (rule defaultKeys_not_tag)
  have step: "handleAttr a l = l"
    using assms notag by (simp add: handleAttr_def)
  have ctx: "map_of (slogContext (classify stored attrs)) (Key a) = None"
    unfolding classify_append
    using assms by (rule slogContext_fold_ignored) (simp add: initLocals_def)
  have tg: "map_of (tags (classify stored attrs)) (Key a) = None"
    unfolding classify_append
    using notag by (rule tags_fold_plainkey) (simp add: initLocals_def)
  show ?thesis using keys notag step ctx tg by simp
qed

theorem other_default_key_ignored_witness:
  "Contains slogDefaultKeys (Key (mkAttr ''level'' (StringValue ''high'')))
   \<and> handleAttr (mkAttr ''level'' (StringValue ''high'')) initLocals = initLocals
   \<and> classify [mkAttr ''msg'' (StringValue ''stored'')]
       [mkAttr ''level'' (StringValue ''high''), mkAttr ''user'' (StringValue ''bob'')]
     = \<lparr>errVar = None, slogContext = [(''user'', ''bob'')], tags = []\<rparr>
   \<and> map_of (slogContext (classify [mkAttr ''msg'' (StringValue ''stored'')]
       [mkAttr ''level'' (StringValue ''high''), mkAttr ''user'' (StringValue ''bob'')]))
       ''level'' = None"
  using other_default_key_ignored [where a = "mkAttr ''level'' (StringValue ''high'')"
      and l = initLocals
      and stored = "[mkAttr ''msg'' (StringValue ''stored'')]"
      and attrs = "[mkAttr ''level'' (StringValue ''high''),
                    mkAttr ''user'' (StringValue ''bob'')]"]
  by (simp add: eval_defs)

text \<open>
  C4. An attribute under \<^verbatim>\<open>err\<close> or \<^verbatim>\<open>error\<close> whose value is not an error (nil
  included) is classified without any failure: the rendering of its value is stored in
  the context map under its key (and is the entry of that key after the scan when no
  later attribute has the same key), and the tag map is left alone. For a record with
  such an attribute, \<open>Handle\<close> returns nil whenever the inner handler returns nil.
\<close>

theorem error_key_without_error_value:
  assumes "Key a = shortErrKey \<or> Key a = longErrKey"
    and "AnyError (Value a) = None"
  shows "handleAttr a l =
           l\<lparr>errVar := None,
             slogContext := AList.update (Key a) (String (Value a)) (slogContext l)\<rparr>
    \<and> map_of (slogContext (handleAttr a l)) (Key a) = Some (String (Value a))
    \<and> tags (handleAttr a l) = tags l
    \<and> (storedAttrs s @ Attrs r = pre @ a # post \<and> (\<forall>b\<in>set post. Key b \<noteq> Key a) \<longrightarrow>
          map_of (slogContext (classify (storedAttrs s) (Attrs r))) (Key a)
            = Some (String (Value a)))
    \<and> (a \<in> set (Attrs r) \<and> hHandle (Handler s) ctx r = None \<longrightarrow>
          snd (Handle s cur ctx r) = None)"
proof -
  have step: "handleAttr a l =
           l\<lparr>errVar := None,
             slogContext := AList.update (Key a) (String (Value a)) (slogContext l)\<rparr>"
    using assms by (rule handleAttr_errKey_other)
  have scan: "map_of (slogContext (classify (storedAttrs s) (Attrs r))) (Key a)
            = Some (String (Value a))"
    if "storedAttrs s @ Attrs r = pre @ a # post" "\<forall>b\<in>set post. Key b \<noteq> Key a"
    unfolding classify_append that(1) using assms that(2) by (rule slogContext_scan_last_key)
  have ret: "snd (Handle s cur ctx r) = hHandle (Handler s) ctx r"
    by (rule Handle_result)
  show ?thesis using step scan ret by (simp add: update_conv')
qed

theorem error_key_without_error_value_witness:
  "(Key (mkAttr ''error'' NilValue) = shortErrKey \<or> Key (mkAttr ''error'' NilValue) = longErrKey)
   \<and> AnyError (Value (mkAttr ''error'' NilValue)) = None
   \<and> handleAttr (mkAttr ''error'' NilValue) initLocals
       = \<lparr>errVar = None, slogContext = [(''error'', ''<nil>'')], tags = []\<rparr>
   \<and> slogContext (classify []
         [mkAttr ''some_attr'' (StringValue ''yes''), mkAttr ''error'' NilValue])
       = [(''some_attr'', ''yes''), (''error'', ''<nil>'')]
   \<and> map_of (slogContext (classify []
         [mkAttr ''some_attr'' (StringValue ''yes''), mkAttr ''error'' NilValue])) ''error''
       = Some ''<nil>''
   \<and> snd (Handle (NewSentryHandler (constHandler None) [LevelError]) 0 (Context None)
         (mkRecord LevelError ''the message''
            [mkAttr ''some_attr'' (StringValue ''yes''), mkAttr ''error'' NilValue]))
       = None"
  using error_key_without_error_value [where a = "mkAttr ''error'' NilValue"
      and s = "NewSentryHandler (constHandler None) [LevelError]"
      and r = "mkRecord LevelError ''the message''
         [mkAttr ''some_attr'' (StringValue ''yes''), mkAttr ''error'' NilValue]"
      and pre = "[mkAttr ''some_attr'' (StringValue ''yes'')]" and post = "[]"
      and cur = 0 and ctx = "Context None" and l = initLocals]
  by (simp add: eval_defs)

subsection \<open>The carried error\<close>

text \<open>
  C3, as amended. The stored attributes are scanned first and the attributes of the
  record after them, each in its order, into one variable for the carried error. When the
  last attribute under \<^verbatim>\<open>err\<close> or \<^verbatim>\<open>error\<close> in this order holds an error, that error is
  the carried one and, at the level Error, the one submitted with the exception. So among
  several attributes that hold errors the latest wins, provided no attribute under an
  error key with a value that is not an error comes after it.
\<close>

theorem latest_error_attribute_is_carried:
  assumes "storedAttrs s @ Attrs r = pre @ a # post"
    and "Key a = shortErrKey \<or> Key a = longErrKey"
    and "AnyError (Value a) = Some e"
    and "\<forall>b\<in>set post. Key b \<noteq> shortErrKey \<and> Key b \<noteq> longErrKey"
  shows "classify (storedAttrs s) (Attrs r)
           = fold handleAttr (storedAttrs s @ Attrs r) initLocals
    \<and> errVar (classify (storedAttrs s) (Attrs r)) = Some e
    \<and> (Level r = LevelError \<and> Contains (levels s) (Level r) \<and> resolveHub cur ctx \<noteq> None \<longrightarrow>
          submissions (fst (Handle s cur ctx r))
            = [CaptureException (SlogError (Message r) (Some e))])"
proof -
  have "errVar (fold handleAttr (pre @ a # post) initLocals) = AnyError (Value a)"
    using assms(2,4) by (rule errVar_scan_last_errKey)
  then have e: "errVar (classify (storedAttrs s) (Attrs r)) = Some e"
    unfolding classify_append assms(1) using assms(3) by simp
  have "submissions (fst (Handle s cur ctx r))
            = [CaptureException (SlogError (Message r) (Some e))]"
    if "Level r = LevelError" "Contains (levels s) (Level r)" "resolveHub cur ctx = Some hub"
    for hub
    using that e by (simp add: Handle_forwarded submissions_withScope)
  then show ?thesis using e by (auto simp add: classify_append)
qed

theorem latest_error_attribute_is_carried_witness:
  "errVar (classify [mkAttr ''err'' (ErrorValue (ErrorString ''stored''))]
       [mkAttr ''err'' (ErrorValue (ErrorString ''from record'')),
        mkAttr ''user'' (StringValue ''bob'')])
     = Some (ErrorString ''from record'')
   \<and> submissions (fst (Handle
       ((NewSentryHandler (constHandler None) [LevelError])
          \<lparr>storedAttrs := [mkAttr ''err'' (ErrorValue (ErrorString ''stored''))]\<rparr>)
       0 (Context None)
       (mkRecord LevelError ''the message''
          [mkAttr ''err'' (ErrorValue (ErrorString ''from record'')),
           mkAttr ''user'' (StringValue ''bob'')])))
     = [CaptureException (SlogError ''the message'' (Some (ErrorString ''from record'')))]"
  using latest_error_attribute_is_carried [where
      s = "(NewSentryHandler (constHandler None) [LevelError])
          \<lparr>storedAttrs := [mkAttr ''err'' (ErrorValue (ErrorString ''stored''))]\<rparr>"
      and r = "mkRecord LevelError ''the message''
          [mkAttr ''err'' (ErrorValue (ErrorString ''from record'')),
           mkAttr ''user'' (StringValue ''bob'')]"
      and pre = "[mkAttr ''err'' (ErrorValue (ErrorString ''stored''))]"
      and a = "mkAttr ''err'' (ErrorValue (ErrorString ''from record''))"
      and post = "[mkAttr ''user'' (StringValue ''bob'')]"
      and e = "ErrorString ''from record''"
      and cur = 0 and ctx = "Context None"]
  by (simp add: eval_defs)

text \<open>
  The claim as first stated fails when an attribute under an error key that holds no
  error comes last: two attributes hold errors, and the exception carries neither.
\<close>

theorem latest_error_attribute_counterexample:
  "AnyError (Value (mkAttr ''err'' (ErrorValue (ErrorString ''first''))))
     = Some (ErrorString ''first'')
   \<and> AnyError (Value (mkAttr ''error'' (ErrorValue (ErrorString ''second''))))
     = Some (ErrorString ''second'')
   \<and> errVar (classify [mkAttr ''err'' (ErrorValue (ErrorString ''first''))]
       [mkAttr ''error'' (ErrorValue (ErrorString ''second'')),
        mkAttr ''err'' (StringValue ''third'')])
     \<noteq> Some (ErrorString ''second'')
   \<and> errVar (classify [mkAttr ''err'' (ErrorValue (ErrorString ''first''))]
       [mkAttr ''error'' (ErrorValue (ErrorString ''second'')),
        mkAttr ''err'' (StringValue ''third'')])
     = None
   \<and> submissions (fst (Handle
       ((NewSentryHandler (constHandler None) [LevelError])
          \<lparr>storedAttrs := [mkAttr ''err'' (ErrorValue (ErrorString ''first''))]\<rparr>)
       0 (Context None)
       (mkRecord LevelError ''the message''
          [mkAttr ''error'' (ErrorValue (ErrorString ''second'')),
           mkAttr ''err'' (StringValue ''third'')])))
     = [CaptureException (SlogError ''the message'' None)]"
  by (simp add: eval_defs)

text \<open>
  C10, as amended. When an attribute under an error key that holds an error is followed,
  anywhere later in the scan, by an attribute under an error key whose value is not an
  error, the carried error is nil after the later attribute, and the rendering of the
  later value is in the context map under its key. When no attribute under an error key
  that holds an error comes after the later attribute, the carried error is nil at the
  end of the scan, and the exception submitted at the level Error has the message of the
  record as its text. When no attribute with the key of the later attribute comes after
  it, its rendering is the entry of that key at the end of the scan.
\<close>

theorem later_non_error_resets_carried_error:
  assumes "storedAttrs s @ Attrs r = pre @ a # mid @ b # post"
    and "Key a = shortErrKey \<or> Key a = longErrKey"
    and "AnyError (Value a) = Some e"
    and "Key b = shortErrKey \<or> Key b = longErrKey"
    and "AnyError (Value b) = None"
  shows "errVar (fold handleAttr (pre @ [a]) initLocals) = Some e
    \<and> errVar (fold handleAttr (pre @ a # mid @ [b]) initLocals) = None
    \<and> map_of (slogContext (fold handleAttr (pre @ a # mid @ [b]) initLocals)) (Key b)
          = Some (String (Value b))
    \<and> ((\<forall>c\<in>set post. Key c = shortErrKey \<or> Key c = longErrKey \<longrightarrow>
                         AnyError (Value c) = None) \<longrightarrow>
          errVar (classify (storedAttrs s) (Attrs r)) = None
          \<and> (Level r = LevelError \<and> Contains (levels s) (Level r) \<longrightarrow>
                submissions (fst (Handle s cur ctx r))
                  = [CaptureException (SlogError (Message r) None)]
                \<and> Error (SlogError (Message r) None) = Message r))
    \<and> ((\<forall>c\<in>set post. Key c \<noteq> Key b) \<longrightarrow>
          map_of (slogContext (classify (storedAttrs s) (Attrs r))) (Key b)
            = Some (String (Value b)))"
proof -
  have first: "errVar (fold handleAttr (pre @ [a]) initLocals) = Some e"
    using errVar_scan_last_errKey [OF assms(2), of "[]" pre initLocals] assms(3) by simp
  have after_b: "errVar (fold handleAttr (pre @ a # mid @ [b]) initLocals) = None"
    using errVar_scan_last_errKey [OF assms(4), of "[]" "pre @ a # mid" initLocals] assms(5)
    by simp
  have ctx_b: "map_of (slogContext (fold handleAttr (pre @ a # mid @ [b]) initLocals)) (Key b)
          = Some (String (Value b))"
    using slogContext_scan_last_key [OF assms(4,5), of "[]" "pre @ a # mid" initLocals]
    by simp
  have scan: "storedAttrs s @ Attrs r = (pre @ a # mid) @ b # post"
    using assms(1) by simp
  have split_scan: "fold handleAttr ((pre @ a # mid) @ b # post) initLocals
          = fold handleAttr post (fold handleAttr (pre @ a # mid @ [b]) initLocals)"
    by simp
  have carried: "errVar (classify (storedAttrs s) (Attrs r)) = None
          \<and> (Level r = LevelError \<and> Contains (levels s) (Level r) \<longrightarrow>
                submissions (fst (Handle s cur ctx r))
                  = [CaptureException (SlogError (Message r) None)]
                \<and> Error (SlogError (Message r) None) = Message r)"
    if post: "\<forall>c\<in>set post. Key c = shortErrKey \<or> Key c = longErrKey \<longrightarrow>
                         AnyError (Value c) = None"
  proof -
    have none: "errVar (classify (storedAttrs s) (Attrs r)) = None"
      unfolding classify_append scan split_scan
      using post after_b by (rule errVar_fold_no_error)
    have "submissions (fst (Handle s cur ctx r))
              = [CaptureException (SlogError (Message r) None)]"
      if "Level r = LevelError" "Contains (levels s) (Level r)"
      using that none resolveHub_Some [of cur ctx]
      by (simp add: Handle_forwarded submissions_withScope)
    then show ?thesis using none by auto
  qed
  have entry: "map_of (slogContext (classify (storedAttrs s) (Attrs r))) (Key b)
            = Some (String (Value b))"
    if "\<forall>c\<in>set post. Key c \<noteq> Key b"
    unfolding classify_append scan
    using assms(4,5) that by (rule slogContext_scan_last_key)
  show ?thesis using first after_b ctx_b carried entry by blast
qed

theorem later_non_error_resets_carried_error_witness:
  "errVar (classify [mkAttr ''err'' (ErrorValue (ErrorString ''boom''))]
       [mkAttr ''user'' (StringValue ''bob''), mkAttr ''error'' (StringValue ''text''),
        mkAttr ''err'' NilValue])
     = None
   \<and> slogContext (classify [mkAttr ''err'' (ErrorValue (ErrorString ''boom''))]
       [mkAttr ''user'' (StringValue ''bob''), mkAttr ''error'' (StringValue ''text''),
        mkAttr ''err'' NilValue])
     = [(''user'', ''bob''), (''error'', ''text''), (''err'', ''<nil>'')]
   \<and> Handle ((NewSentryHandler (constHandler None) [LevelError])
          \<lparr>storedAttrs := [mkAttr ''err'' (ErrorValue (ErrorString ''boom''))]\<rparr>)
       0 (Context None)
       (mkRecord LevelError ''failed''
          [mkAttr ''user'' (StringValue ''bob''), mkAttr ''error'' (StringValue ''text''),
           mkAttr ''err'' NilValue])
     = ([SetContext 0 ''slog''
           [(''user'', ''bob''), (''error'', ''text''), (''err'', ''<nil>'')],
         CaptureException (SlogError ''failed'' None),
         InnerHandle (Context None) (mkRecord LevelError ''failed''
          [mkAttr ''user'' (StringValue ''bob''), mkAttr ''error'' (StringValue ''text''),
           mkAttr ''err'' NilValue])],
        None)
   \<and> Error (SlogError ''failed'' None) = ''failed''"
  using later_non_error_resets_carried_error [where
      s = "(NewSentryHandler (constHandler None) [LevelError])
          \<lparr>storedAttrs := [mkAttr ''err'' (ErrorValue (ErrorString ''boom''))]\<rparr>"
      and r = "mkRecord LevelError ''failed''
          [mkAttr ''user'' (StringValue ''bob''), mkAttr ''error'' (StringValue ''text''),
           mkAttr ''err'' NilValue]"
      and pre = "[]" and a = "mkAttr ''err'' (ErrorValue (ErrorString ''boom''))"
      and mid = "[mkAttr ''user'' (StringValue ''bob'')]"
      and b = "mkAttr ''error'' (StringValue ''text'')"
      and post = "[mkAttr ''err'' NilValue]"
      and e = "ErrorString ''boom''" and cur = 0 and ctx = "Context None"]
  by (simp add: eval_defs)

text \<open>
  The claim as first stated fails when an attribute under an error key that holds an
  error comes after the later attribute: the first error is lost, and the exception is
  built from the message and the last error.
\<close>

theorem later_non_error_counterexample:
  "AnyError (Value (mkAttr ''err'' (ErrorValue (ErrorString ''first''))))
     = Some (ErrorString ''first'')
   \<and> AnyError (Value (mkAttr ''err'' (StringValue ''text''))) = None
   \<and> errVar (classify []
       [mkAttr ''err'' (ErrorValue (ErrorString ''first'')),
        mkAttr ''err'' (StringValue ''text''),
        mkAttr ''error'' (ErrorValue (ErrorString ''last''))])
     = Some (ErrorString ''last'')
   \<and> submissions (fst (Handle (NewSentryHandler (constHandler None) [LevelError])
       0 (Context None)
       (mkRecord LevelError ''the message''
          [mkAttr ''err'' (ErrorValue (ErrorString ''first'')),
           mkAttr ''err'' (StringValue ''text''),
           mkAttr ''error'' (ErrorValue (ErrorString ''last''))])))
     = [CaptureException (SlogError ''the message'' (Some (ErrorString ''last'')))]
   \<and> submissions (fst (Handle (NewSentryHandler (constHandler None) [LevelError])
       0 (Context None)
       (mkRecord LevelError ''the message''
          [mkAttr ''err'' (ErrorValue (ErrorString ''first'')),
           mkAttr ''err'' (StringValue ''text''),
           mkAttr ''error'' (ErrorValue (ErrorString ''last''))])))
     \<noteq> [CaptureException (SlogError ''the message'' None)]
   \<and> Error (SlogError ''the message'' (Some (ErrorString ''last'')))
     = ''the message: last''"
  by (simp add: eval_defs)

subsection \<open>Submission by level\<close>

text \<open>
  C5. For a forwarded record (its level is configured and a hub is found), what is
  submitted depends on the level alone: at Error one exception, the \<^verbatim>\<open>SlogError\<close> of the
  message and the carried error; at Debug, Info and Warn one message, the text of the
  record; at any other level nothing. In each case the result is the inner handler's.
\<close>

theorem dispatch_by_level:
  assumes "Contains (levels s) (Level r)" and "resolveHub cur ctx = Some hub"
  shows "submissions (fst (Handle s cur ctx r)) =
     (if Level r = LevelError then
        [CaptureException (SlogError (Message r) (errVar (classify (storedAttrs s) (Attrs r))))]
      else if Level r = LevelDebug \<or> Level r = LevelInfo \<or> Level r = LevelWarn then
        [CaptureMessage (Message r)]
      else [])
    \<and> snd (Handle s cur ctx r) = hHandle (Handler s) ctx r"
  using assms by (simp add: Handle_forwarded submissions_withScope)

theorem dispatch_by_level_witness:
  "submissions (fst (Handle (NewSentryHandler (constHandler None) [LevelError, LevelInfo, 12])
       0 (Context None)
       (mkRecord LevelError ''failed'' [mkAttr ''err'' (ErrorValue (ErrorString ''boom''))])))
     = [CaptureException (SlogError ''failed'' (Some (ErrorString ''boom'')))]
   \<and> Error (SlogError ''failed'' (Some (ErrorString ''boom''))) = ''failed: boom''
   \<and> submissions (fst (Handle (NewSentryHandler (constHandler None) [LevelError, LevelInfo, 12])
       0 (Context None)
       (mkRecord LevelInfo ''started'' [mkAttr ''err'' (ErrorValue (ErrorString ''boom''))])))
     = [CaptureMessage ''started'']
   \<and> Handle (NewSentryHandler (constHandler None) [LevelError, LevelInfo, 12])
       0 (Context None) (mkRecord 12 ''fatal'' [mkAttr ''user'' (StringValue ''bob'')])
     = ([SetContext 0 ''slog'' [(''user'', ''bob'')],
         InnerHandle (Context None)
           (mkRecord 12 ''fatal'' [mkAttr ''user'' (StringValue ''bob'')])],
        None)"
  using dispatch_by_level [where
      s = "NewSentryHandler (constHandler None) [LevelError, LevelInfo, 12]"
      and r = "mkRecord LevelError ''failed'' [mkAttr ''err'' (ErrorValue (ErrorString ''boom''))]"
      and cur = 0 and ctx = "Context None" and hub = 0]
    dispatch_by_level [where
      s = "NewSentryHandler (constHandler None) [LevelError, LevelInfo, 12]"
      and r = "mkRecord LevelInfo ''started'' [mkAttr ''err'' (ErrorValue (ErrorString ''boom''))]"
      and cur = 0 and ctx = "Context None" and hub = 0]
    dispatch_by_level [where
      s = "NewSentryHandler (constHandler None) [LevelError, LevelInfo, 12]"
      and r = "mkRecord 12 ''fatal'' [mkAttr ''user'' (StringValue ''bob'')]"
      and cur = 0 and ctx = "Context None" and hub = 0]
  by (simp add: eval_defs)

subsection \<open>The text of a \<^verbatim>\<open>SlogError\<close>\<close>

text \<open>
  C6. \<^verbatim>\<open>Error()\<close> of a \<^verbatim>\<open>SlogError\<close> with a message and a wrapped error is the message,
  a colon and a space, and the text of the wrapped error; with a message only it is the
  message; with a wrapped error only it is the text of that error. \<^verbatim>\<open>Unwrap()\<close> returns
  the wrapped error as it was stored.
\<close>

theorem SlogError_Error_Unwrap:
  "(m \<noteq> [] \<longrightarrow> Error (SlogError m (Some e)) = m @ '': '' @ Error e)
   \<and> Error (SlogError m None) = m
   \<and> Error (SlogError [] (Some e)) = Error e
   \<and> Unwrap (SlogError m w) = w"
  by (simp add: Unwrap_def)

theorem SlogError_Error_Unwrap_witness:
  "Error (SlogError ''the message'' (Some (ErrorString ''the error'')))
     = ''the message: the error''
   \<and> Error (SlogError ''the message'' None) = ''the message''
   \<and> Error (SlogError [] (Some (ErrorString ''the error''))) = ''the error''
   \<and> Unwrap (SlogError ''the message'' (Some (ErrorString ''the error'')))
       = Some (ErrorString ''the error'')"
  using SlogError_Error_Unwrap [of "''the message''" "ErrorString ''the error''"
      "Some (ErrorString ''the error'')"]
  by simp

subsection \<open>Derived handlers\<close>

text \<open>
  C8. \<open>WithAttrs s attrs\<close> wraps the handler that the inner handler's own
  \<open>WithAttrs\<close> returns, keeps the levels, and has exactly \<open>attrs\<close> as stored
  attributes, whatever \<open>s\<close> had stored; it is the handler that the constructor with
  stored attributes builds. Its \<open>Handle\<close> classifies \<open>attrs\<close> followed by the attributes
  of the record, and nothing else.
\<close>

theorem WithAttrs_replaces_storedAttrs:
  "Handler (WithAttrs s attrs) = hWithAttrs (Handler s) attrs
   \<and> levels (WithAttrs s attrs) = levels s
   \<and> storedAttrs (WithAttrs s attrs) = attrs
   \<and> WithAttrs s attrs
       = NewSentryHandlerWithStoredAttrs (hWithAttrs (Handler s) attrs) (levels s) attrs
   \<and> Handle (WithAttrs s attrs) cur ctx r =
       (if Contains (levels s) (Level r) then
          (case resolveHub cur ctx of
             None \<Rightarrow> ([], Some (ErrorString ''sentry: hub is nil''))
           | Some hub \<Rightarrow>
               (withScope hub (fold handleAttr (attrs @ Attrs r) initLocals) r
                  @ [InnerHandle ctx r],
                hHandle (hWithAttrs (Handler s) attrs) ctx r))
        else ([InnerHandle ctx r], hHandle (hWithAttrs (Handler s) attrs) ctx r))"
  by (simp add: WithAttrs_def NewSentryHandlerWithStoredAttrs_def NewSentryHandler_def
      Handle_def classify_def split: option.split)

theorem WithAttrs_replaces_storedAttrs_witness:
  "storedAttrs (WithAttrs
       (WithAttrs (NewSentryHandler (constHandler None) [LevelError])
          [mkAttr ''region'' (StringValue ''eu'')])
       [mkAttr ''user'' (StringValue ''bob'')])
     = [mkAttr ''user'' (StringValue ''bob'')]
   \<and> Handle (WithAttrs
       (WithAttrs (NewSentryHandler (constHandler None) [LevelError])
          [mkAttr ''region'' (StringValue ''eu'')])
       [mkAttr ''user'' (StringValue ''bob'')])
       0 (Context None)
       (mkRecord LevelError ''failed'' [mkAttr ''tag_env'' (StringValue ''prod'')])
     = ([SetContext 0 ''slog'' [(''user'', ''bob'')],
         SetTags 0 [(''tag_env'', ''prod'')],
         CaptureException (SlogError ''failed'' None),
         InnerHandle (Context None)
           (mkRecord LevelError ''failed'' [mkAttr ''tag_env'' (StringValue ''prod'')])],
        None)"
  using WithAttrs_replaces_storedAttrs [where
      s = "WithAttrs (NewSentryHandler (constHandler None) [LevelError])
          [mkAttr ''region'' (StringValue ''eu'')]"
      and attrs = "[mkAttr ''user'' (StringValue ''bob'')]"
      and cur = 0 and ctx = "Context None"
      and r = "mkRecord LevelError ''failed'' [mkAttr ''tag_env'' (StringValue ''prod'')]"]
  by (simp add: eval_defs)

end
